theory Spec2Isabelle
  imports Complex_Main
begin

section \<open>Data model of app.py\<close>

text \<open>
  A naive \<open>datetime\<close> is modelled by its number of microseconds since the start of the
  proleptic calendar; \<open>isoformat\<close> followed by \<open>fromisoformat\<close> is the identity on such
  values, so a stored time string is modelled by the timestamp it denotes. The string
  produced by \<open>strftime('%Y-%m-%d')\<close> is modelled by the number of the calendar day.
  Python floats are modelled by exact rationals.

  The dictionaries of the three JSON lists are records. A key that the handlers read with
  a default (\<open>is_suspended\<close>, \<open>suspension_notes\<close>, \<open>editNotes\<close>, \<open>edited\<close>) is a field
  that holds the default when the key is missing. The key \<open>id\<close> is the field \<open>u_id\<close>,
  \<open>e_id\<close> or \<open>n_id\<close>, and the key \<open>note\<close> of a note is the field \<open>note_text\<close>.
\<close>

type_synonym time = int

definition day_of :: "time \<Rightarrow> int" where
  "day_of t = t div 86400000000"

definition total_seconds :: "int \<Rightarrow> rat" where
  "total_seconds d = of_int d / 1000000"

definition timedelta_days :: "int \<Rightarrow> int" where
  "timedelta_days n = n * 86400000000"

text \<open>Python's \<open>round(x, 2)\<close>: to the nearest hundredth, ties to the even neighbour.\<close>

definition round_half_even :: "rat \<Rightarrow> int" where
  "round_half_even x =
     (let f = \<lfloor>x\<rfloor>; r = x - of_int f
      in if r < 1 / 2 then f
         else if 1 / 2 < r then f + 1
         else if even f then f else f + 1)"

definition round2 :: "rat \<Rightarrow> rat" where
  "round2 x = of_int (round_half_even (x * 100)) / 100"

record user =
  u_id :: string
  name :: string
  email :: "string option"
  phone :: "string option"
  role :: string
  pin :: string
  is_suspended :: bool
  suspension_notes :: "string list"

record time_entry =
  e_id :: string
  userId :: string
  loginTime :: time
  logoutTime :: "time option"
  totalHours :: rat
  date :: int
  edited :: bool
  lastModified :: time
  editNotes :: "string list"

datatype entity_type = Time_entry | User_suspension

text \<open>
  The text of a note is an f-string. It is modelled by the sequence of its segments:
  the literal pieces and the interpolated values, each kept as the value that is printed.
\<close>

datatype segment =
    Lit string
  | Str string
  | Minute int
  | Hours rat
  | Flag bool

record note_rec =
  n_id :: string
  entityId :: string
  entityType :: entity_type
  timestamp :: time
  editor :: string
  note_text :: "segment list"

text \<open>
  The three global lists (\<open>notes\<close> under the name \<open>note_list\<close>), and the content
  of the three JSON files as last written by \<open>save_data\<close>.
\<close>

record state =
  users :: "user list"
  time_entries :: "time_entry list"
  note_list :: "note_rec list"
  users_file :: "user list"
  time_entries_file :: "time_entry list"
  notes_file :: "note_rec list"

text \<open>The body and the status code of every \<open>return jsonify(...), code\<close> of the handlers.\<close>

datatype message =
    User_not_found
  | User_suspended
  | Already_clocked_in
  | Clocked_in
  | Hours_updated
  | Clocked_out
  | No_active_clock_in
  | Unauthorized_delete
  | Cannot_delete_self
  | Cannot_delete_last_admin
  | User_deleted
  | Unauthorized_logout
  | Logged_out
  | Not_clocked_in
  | Entry_id_and_note_required
  | Time_entry_not_found
  | Unauthorized_edit
  | Logout_before_login
  | Time_entry_updated
  | Invalid_date_format
  | Error_editing
  | Unauthorized_suspend
  | Cannot_suspend_self
  | Timekeeper_cannot_suspend_admin
  | Note_required
  | Suspension_updated
  | Internal_server_error

type_synonym response = "message \<times> nat"

section \<open>Helpers\<close>

text \<open>
  \<open>x = next((y for y in xs if P(y)), None)\<close> is \<open>find P xs\<close>; assigning to the fields
  of the dictionary found that way changes the first element of the list that satisfies
  \<open>P\<close>, in place.
\<close>

fun update_first :: "('a \<Rightarrow> bool) \<Rightarrow> ('a \<Rightarrow> 'a) \<Rightarrow> 'a list \<Rightarrow> 'a list" where
  "update_first P f [] = []"
| "update_first P f (x # xs) = (if P x then f x # xs else x # update_first P f xs)"

definition has_id :: "string \<Rightarrow> user \<Rightarrow> bool" where
  "has_id i u = (u_id u = i)"

definition is_active_of :: "string \<Rightarrow> time_entry \<Rightarrow> bool" where
  "is_active_of i e = (userId e = i \<and> logoutTime e = None)"

definition entry_has_id :: "string \<Rightarrow> time_entry \<Rightarrow> bool" where
  "entry_has_id i e = (e_id e = i)"

definition format_time_for_log :: "time option \<Rightarrow> segment" where
  "format_time_for_log iso_string =
     (case iso_string of None \<Rightarrow> Lit ''N/A'' | Some t \<Rightarrow> Minute (t div 60000000))"

text \<open>Whitespace of \<open>str.strip()\<close> among the code points below 256.\<close>

definition is_space :: "char \<Rightarrow> bool" where
  "is_space c = (let k = of_char c :: nat
                 in (9 \<le> k \<and> k \<le> 13) \<or> (28 \<le> k \<and> k \<le> 32) \<or> k = 133 \<or> k = 160)"

definition strip :: "string \<Rightarrow> string" where
  "strip s = rev (dropWhile is_space (rev (dropWhile is_space s)))"

section \<open>The handlers\<close>

text \<open>
  Each handler takes the state and the fields of the request, and returns the response
  and the state it leaves. Every call of \<open>datetime.now()\<close> and of \<open>uuid.uuid4()\<close> is an
  argument of its own, in the order of the calls.
\<close>

definition clock_in :: "state \<Rightarrow> string \<Rightarrow> string \<Rightarrow> time \<Rightarrow> time \<Rightarrow> time \<Rightarrow> response \<times> state" where
  "clock_in s user_id new_id now1 now2 now3 =
     (case find (has_id user_id) (users s) of
        None \<Rightarrow> ((User_not_found, 404), s)
      | Some usr \<Rightarrow>
          if is_suspended usr then ((User_suspended, 403), s)
          else (case find (is_active_of user_id) (time_entries s) of
                  Some active_entry \<Rightarrow> ((Already_clocked_in, 400), s)
                | None \<Rightarrow>
                    let new_entry = \<lparr>e_id = new_id, userId = user_id, loginTime = now1,
                                     logoutTime = None, totalHours = 0, date = day_of now2,
                                     edited = False, lastModified = now3, editNotes = []\<rparr>;
                        es = time_entries s @ [new_entry]
                    in ((Clocked_in, 200), s\<lparr>time_entries := es, time_entries_file := es\<rparr>)))"

definition is_today_entry :: "string \<Rightarrow> int \<Rightarrow> time \<Rightarrow> time_entry \<Rightarrow> bool" where
  "is_today_entry user_id today_date_str logout_time e =
     (userId e = user_id \<and> date e = today_date_str \<and> logoutTime e \<noteq> None
      \<and> day_of (loginTime e) = day_of logout_time)"

definition clock_out :: "state \<Rightarrow> string \<Rightarrow> time \<Rightarrow> time \<Rightarrow> time \<Rightarrow> response \<times> state" where
  "clock_out s user_id now1 now2 now3 =
     (case find (has_id user_id) (users s) of
        None \<Rightarrow> ((User_not_found, 404), s)
      | Some usr \<Rightarrow>
          (case find (is_active_of user_id) (time_entries s) of
             None \<Rightarrow> ((No_active_clock_in, 400), s)
           | Some active_entry \<Rightarrow>
               let login_time = loginTime active_entry;
                   logout_time = now1;
                   current_session_hours = round2 (total_seconds (logout_time - login_time) / 3600);
                   today_date_str = day_of now2
               in (case find (is_today_entry user_id today_date_str logout_time) (time_entries s) of
                     Some existing_today_entry \<Rightarrow>
                       let es = remove1 active_entry
                                  (update_first (is_today_entry user_id today_date_str logout_time)
                                     (\<lambda>e. e\<lparr>totalHours := round2 (totalHours e + current_session_hours),
                                             logoutTime := Some logout_time,
                                             lastModified := now3\<rparr>)
                                     (time_entries s))
                       in ((Hours_updated, 200), s\<lparr>time_entries := es, time_entries_file := es\<rparr>)
                   | None \<Rightarrow>
                       let es = update_first (is_active_of user_id)
                                  (\<lambda>e. e\<lparr>logoutTime := Some logout_time,
                                          totalHours := current_session_hours,
                                          lastModified := now3\<rparr>)
                                  (time_entries s)
                       in ((Clocked_out, 200), s\<lparr>time_entries := es, time_entries_file := es\<rparr>))))"

text \<open>
  In \<open>delete_user\<close>, \<open>logout\<close>, \<open>edit_time_entry\<close> and \<open>suspend_user\<close> the log line of the
  authorisation check calls \<open>requester_user.get\<close>; when no user has the requester's id that
  is a call on \<open>None\<close>, the exception is handled by nobody and the framework answers 500.
\<close>

definition delete_user :: "state \<Rightarrow> string \<Rightarrow> string \<Rightarrow> response \<times> state" where
  "delete_user s user_id requester_id =
     (case find (has_id user_id) (users s) of
        None \<Rightarrow> ((User_not_found, 404), s)
      | Some user_to_delete \<Rightarrow>
          (case find (has_id requester_id) (users s) of
             None \<Rightarrow> ((Internal_server_error, 500), s)
           | Some requester_user \<Rightarrow>
               if role requester_user \<noteq> ''ADMIN'' then ((Unauthorized_delete, 403), s)
               else if u_id user_to_delete = requester_id then ((Cannot_delete_self, 403), s)
               else if role user_to_delete = ''ADMIN''
                       \<and> length (filter (\<lambda>u. role u = ''ADMIN'') (users s)) \<le> 1
                    then ((Cannot_delete_last_admin, 403), s)
               else
                 let notes_to_delete_ids =
                       set (concat (map editNotes (filter (\<lambda>e. userId e = user_id) (time_entries s))))
                       \<union> set (suspension_notes user_to_delete);
                     us = filter (\<lambda>u. u_id u \<noteq> user_id) (users s);
                     es = filter (\<lambda>e. userId e \<noteq> user_id) (time_entries s);
                     ns = filter (\<lambda>n. n_id n \<notin> notes_to_delete_ids) (note_list s)
                 in ((User_deleted, 200),
                     s\<lparr>users := us, users_file := us,
                       time_entries := es, time_entries_file := es,
                       note_list := ns, notes_file := ns\<rparr>)))"

definition entry_note_text ::
  "string \<Rightarrow> string \<Rightarrow> string \<Rightarrow> time option \<Rightarrow> time option \<Rightarrow> rat
     \<Rightarrow> time option \<Rightarrow> time option \<Rightarrow> rat \<Rightarrow> segment list" where
  "entry_note_text verb editor_name reason before_login before_logout before_hours
       after_login after_logout after_hours =
     [Lit verb, Str editor_name, Lit ''. Reason: '', Str reason,
      Lit ''\<newline>Before:\<newline>  Clock In: '', format_time_for_log before_login,
      Lit ''\<newline>  Clock Out: '', format_time_for_log before_logout,
      Lit ''\<newline>  Hours: '', Hours before_hours,
      Lit ''\<newline>After:\<newline>  Clock In: '', format_time_for_log after_login,
      Lit ''\<newline>  Clock Out: '', format_time_for_log after_logout,
      Lit ''\<newline>  Hours: '', Hours after_hours]"

definition logout ::
  "state \<Rightarrow> string \<Rightarrow> string option \<Rightarrow> string \<Rightarrow> string \<Rightarrow> time \<Rightarrow> time \<Rightarrow> time
     \<Rightarrow> response \<times> state" where
  "logout s user_id note_field requester_id new_note_id now1 now2 now3 =
     (let note_content = (case note_field of
                            None \<Rightarrow> ''Logged out by administrator/timekeeper.''
                          | Some t \<Rightarrow> t)
      in case find (has_id requester_id) (users s) of
        None \<Rightarrow> ((Internal_server_error, 500), s)
      | Some requester_user \<Rightarrow>
          if role requester_user \<notin> set [''ADMIN'', ''TIMEKEEPER'']
          then ((Unauthorized_logout, 403), s)
          else (case find (has_id user_id) (users s) of
             None \<Rightarrow> ((User_not_found, 404), s)
           | Some user_to_logout \<Rightarrow>
               (case find (is_active_of user_id) (time_entries s) of
                  None \<Rightarrow> ((Not_clocked_in, 400), s)
                | Some active_entry \<Rightarrow>
                    let login_time = loginTime active_entry;
                        logout_time = now1;
                        total_hours = round2 (total_seconds (logout_time - login_time) / 3600);
                        new_note = \<lparr>n_id = new_note_id, entityId = e_id active_entry,
                                    entityType = Time_entry, timestamp = now3,
                                    editor = name requester_user,
                                    note_text = entry_note_text ''Logged out by ''
                                      (name requester_user) note_content
                                      (Some (loginTime active_entry)) (logoutTime active_entry)
                                      (totalHours active_entry)
                                      (Some (loginTime active_entry)) (Some logout_time)
                                      total_hours\<rparr>;
                        ns = note_list s @ [new_note];
                        es = update_first (is_active_of user_id)
                               (\<lambda>e. e\<lparr>logoutTime := Some logout_time, totalHours := total_hours,
                                       edited := True, lastModified := now2,
                                       editNotes := editNotes e @ [new_note_id]\<rparr>)
                               (time_entries s)
                    in ((Logged_out, 200),
                        s\<lparr>note_list := ns, notes_file := ns,
                          time_entries := es, time_entries_file := es\<rparr>))))"

text \<open>
  A time field of the request of \<open>edit_time_entry\<close>: missing or null, the empty string,
  a non-empty string that \<open>datetime.fromisoformat\<close> rejects, or a string that denotes a
  naive time. \<open>fromisoformat(None)\<close> raises \<open>TypeError\<close>, a string that is not a time
  raises \<open>ValueError\<close>.
\<close>

datatype time_field = JNull | JEmpty | JBad | JTime time

datatype exn = TypeError | ValueError

fun fromisoformat :: "time_field \<Rightarrow> exn + time" where
  "fromisoformat JNull = Inl TypeError"
| "fromisoformat JEmpty = Inl ValueError"
| "fromisoformat JBad = Inl ValueError"
| "fromisoformat (JTime t) = Inr t"

fun truthy :: "time_field \<Rightarrow> bool" where
  "truthy JNull = False"
| "truthy JEmpty = False"
| "truthy JBad = True"
| "truthy (JTime t) = True"

text \<open>The two \<open>except\<close> clauses of \<open>edit_time_entry\<close>.\<close>

fun handle_exn :: "exn \<Rightarrow> response" where
  "handle_exn ValueError = (Invalid_date_format, 400)"
| "handle_exn TypeError = (Error_editing, 500)"

definition edit_time_entry ::
  "state \<Rightarrow> string \<Rightarrow> time_field \<Rightarrow> time_field \<Rightarrow> string option \<Rightarrow> string \<Rightarrow> string
     \<Rightarrow> time \<Rightarrow> time \<Rightarrow> response \<times> state" where
  "edit_time_entry s entry_id new_login_time_str new_logout_time_str edit_note_field
       editor_user_id new_note_id now1 now2 =
     (case edit_note_field of
        None \<Rightarrow> ((Entry_id_and_note_required, 400), s)
      | Some edit_note_content \<Rightarrow>
     if entry_id = [] \<or> edit_note_content = []
     then ((Entry_id_and_note_required, 400), s)
     else case find (entry_has_id entry_id) (time_entries s) of
        None \<Rightarrow> ((Time_entry_not_found, 404), s)
      | Some entry_to_edit \<Rightarrow>
          (case find (has_id editor_user_id) (users s) of
             None \<Rightarrow> ((Internal_server_error, 500), s)
           | Some editor_user \<Rightarrow>
               if role editor_user \<notin> set [''ADMIN'', ''TIMEKEEPER'']
               then ((Unauthorized_edit, 403), s)
               else (case fromisoformat new_login_time_str of
                  Inl e \<Rightarrow> (handle_exn e, s)
                | Inr login_dt \<Rightarrow>
                    (case (if truthy new_logout_time_str
                           then map_sum id Some (fromisoformat new_logout_time_str)
                           else Inr None) of
                       Inl e \<Rightarrow> (handle_exn e, s)
                     | Inr logout_dt \<Rightarrow>
                         if (case logout_dt of None \<Rightarrow> False | Some l \<Rightarrow> l < login_dt)
                         then ((Logout_before_login, 400), s)
                         else
                           let after_total_hours =
                                 (case logout_dt of
                                    Some l \<Rightarrow> round2 (total_seconds (l - login_dt) / 3600)
                                  | None \<Rightarrow> 0);
                               new_note = \<lparr>n_id = new_note_id, entityId = entry_id,
                                           entityType = Time_entry, timestamp = now2,
                                           editor = name editor_user,
                                           note_text = entry_note_text ''Edited by ''
                                             (name editor_user) edit_note_content
                                             (Some (loginTime entry_to_edit))
                                             (logoutTime entry_to_edit)
                                             (totalHours entry_to_edit)
                                             (Some login_dt) logout_dt after_total_hours\<rparr>;
                               ns = note_list s @ [new_note];
                               es = update_first (entry_has_id entry_id)
                                      (\<lambda>e. e\<lparr>loginTime := login_dt, logoutTime := logout_dt,
                                              totalHours := after_total_hours,
                                              edited := True, lastModified := now1,
                                              editNotes := editNotes e @ [new_note_id]\<rparr>)
                                      (time_entries s)
                           in ((Time_entry_updated, 200),
                               s\<lparr>note_list := ns, notes_file := ns,
                                 time_entries := es, time_entries_file := es\<rparr>)))))"

text \<open>
  \<open>get_all_time_entries\<close> answers with one copy per entry, extended by the user's name and
  the notes the entry refers to. The \<open>edited\<close> flag is reset in the copy; what is saved
  afterwards is the list \<open>time_entries\<close> itself.
\<close>

record entry_view =
  entry :: time_entry
  userName :: string
  editNotesFull :: "note_rec list"

definition is_stale :: "time \<Rightarrow> time_entry \<Rightarrow> bool" where
  "is_stale current_time e =
     (edited e \<and> timedelta_days 3 < current_time - lastModified e)"

definition view_of :: "state \<Rightarrow> time \<Rightarrow> time_entry \<Rightarrow> entry_view" where
  "view_of s current_time e =
     \<lparr>entry = (if is_stale current_time e then e\<lparr>edited := False\<rparr> else e),
      userName = (case find (has_id (userId e)) (users s) of
                    Some usr \<Rightarrow> name usr | None \<Rightarrow> ''Unknown User''),
      editNotesFull = filter (\<lambda>n. n_id n \<in> set (editNotes e)) (note_list s)\<rparr>"

definition get_all_time_entries :: "state \<Rightarrow> time \<Rightarrow> entry_view list \<times> state" where
  "get_all_time_entries s now1 =
     (let entries_with_names = map (view_of s now1) (time_entries s);
          updated_entries_flag = list_ex (is_stale now1) (time_entries s)
      in (entries_with_names,
          if updated_entries_flag then s\<lparr>time_entries_file := time_entries s\<rparr> else s))"

definition suspend_note_text ::
  "bool \<Rightarrow> string \<Rightarrow> string \<Rightarrow> bool \<Rightarrow> string \<Rightarrow> bool \<Rightarrow> string \<Rightarrow> segment list" where
  "suspend_note_text suspend requester_name reason before_status before_role
       after_status after_role =
     [Lit (if suspend then ''Suspended'' else ''Unsuspended''), Lit '' by '',
      Str requester_name, Lit ''. Reason: '', Str reason,
      Lit ''\<newline>Before: Suspended: '', Flag before_status, Lit '', Role: '',
      Str before_role,
      Lit ''\<newline>After: Suspended: '', Flag after_status, Lit '', Role: '',
      Str after_role]"

definition suspend_user ::
  "state \<Rightarrow> string \<Rightarrow> bool \<Rightarrow> string option \<Rightarrow> string \<Rightarrow> string \<Rightarrow> time \<Rightarrow> response \<times> state" where
  "suspend_user s user_id suspend note_field requester_id new_note_id now1 =
     (case find (has_id user_id) (users s) of
        None \<Rightarrow> ((User_not_found, 404), s)
      | Some user_to_modify \<Rightarrow>
          (case find (has_id requester_id) (users s) of
             None \<Rightarrow> ((Internal_server_error, 500), s)
           | Some requester_user \<Rightarrow>
               if role requester_user \<notin> set [''ADMIN'', ''TIMEKEEPER'']
               then ((Unauthorized_suspend, 403), s)
               else if user_id = requester_id then ((Cannot_suspend_self, 403), s)
               else if role requester_user = ''TIMEKEEPER'' \<and> role user_to_modify = ''ADMIN''
               then ((Timekeeper_cannot_suspend_admin, 403), s)
               else (case note_field of
                  None \<Rightarrow> ((Note_required, 400), s)
                | Some note_content \<Rightarrow>
                    if note_content = [] \<or> strip note_content = []
                    then ((Note_required, 400), s)
                    else
                      let new_note = \<lparr>n_id = new_note_id, entityId = user_id,
                                      entityType = User_suspension, timestamp = now1,
                                      editor = name requester_user,
                                      note_text = suspend_note_text suspend (name requester_user)
                                        note_content (is_suspended user_to_modify)
                                        (role user_to_modify) suspend (role user_to_modify)\<rparr>;
                          ns = note_list s @ [new_note];
                          us = update_first (has_id user_id)
                                 (\<lambda>u. u\<lparr>is_suspended := suspend,
                                         suspension_notes := suspension_notes u @ [new_note_id]\<rparr>)
                                 (users s)
                      in ((Suspension_updated, 200),
                          s\<lparr>note_list := ns, notes_file := ns, users := us, users_file := us\<rparr>))))"

section \<open>The invariant on active entries\<close>

text \<open>No two entries without a logout time belong to the same user.\<close>

definition at_most_one_active :: "time_entry list \<Rightarrow> bool" where
  "at_most_one_active es = distinct (map userId (filter (\<lambda>e. logoutTime e = None) es))"

section \<open>Example data\<close>

text \<open>
  The three default users of \<open>DEFAULT_USERS_CONFIG\<close>, and a few stores built from them.
  \<open>hm d h m\<close> is the time \<open>h:m\<close> of day number \<open>d\<close>.
\<close>

definition hm :: "int \<Rightarrow> int \<Rightarrow> int \<Rightarrow> time" where
  "hm d h m = ((d * 24 + h) * 60 + m) * 60000000"

definition admin_user :: user where
  "admin_user = \<lparr>u_id = ''a1'', name = ''System Admin'', email = Some ''admin@example.com'',
                  phone = Some ''555-111-2222'', role = ''ADMIN'', pin = ''0000'',
                  is_suspended = False, suspension_notes = []\<rparr>"

definition keeper_user :: user where
  "keeper_user = \<lparr>u_id = ''k1'', name = ''Lead Timekeeper'',
                   email = Some ''timekeeper@example.com'', phone = Some ''555-333-4444'',
                   role = ''TIMEKEEPER'', pin = ''1111'',
                   is_suspended = False, suspension_notes = []\<rparr>"

definition worker_user :: user where
  "worker_user = \<lparr>u_id = ''w1'', name = ''John Doe'', email = Some ''john@example.com'',
                   phone = Some ''555-555-6666'', role = ''worker'', pin = ''1234'',
                   is_suspended = False, suspension_notes = []\<rparr>"

definition store_of :: "user list \<Rightarrow> time_entry list \<Rightarrow> note_rec list \<Rightarrow> state" where
  "store_of us es ns = \<lparr>users = us, time_entries = es, note_list = ns,
                        users_file = us, time_entries_file = es, notes_file = ns\<rparr>"

definition default_users :: "user list" where
  "default_users = [admin_user, keeper_user, worker_user]"

text \<open>The worker clocked in at 9:00 of day 100.\<close>

definition open_entry :: time_entry where
  "open_entry = \<lparr>e_id = ''e2'', userId = ''w1'', loginTime = hm 100 9 0, logoutTime = None,
                  totalHours = 0, date = 100, edited = False, lastModified = hm 100 9 0,
                  editNotes = []\<rparr>"

text \<open>The worker's session of day 99, from 9:00 to 17:00.\<close>

definition closed_entry :: time_entry where
  "closed_entry = \<lparr>e_id = ''e1'', userId = ''w1'', loginTime = hm 99 9 0,
                    logoutTime = Some (hm 99 17 0), totalHours = 8, date = 99, edited = False,
                    lastModified = hm 99 17 0, editNotes = []\<rparr>"

definition fresh_store :: state where
  "fresh_store = store_of default_users [] []"

definition clocked_in_store :: state where
  "clocked_in_store = store_of default_users [closed_entry, open_entry] []"

text \<open>The worker has an open session and has been suspended by the administrator.\<close>

definition suspension_note :: note_rec where
  "suspension_note = \<lparr>n_id = ''n1'', entityId = ''w1'', entityType = User_suspension,
                       timestamp = hm 100 10 0, editor = ''System Admin'',
                       note_text = suspend_note_text True ''System Admin'' ''no show''
                                     False ''worker'' True ''worker''\<rparr>"

definition suspended_store :: state where
  "suspended_store =
     store_of [admin_user, keeper_user,
               worker_user\<lparr>is_suspended := True, suspension_notes := [''n1'']\<rparr>]
              [closed_entry, open_entry] [suspension_note]"

text \<open>
  A store with audit notes: the worker has been suspended (note \<open>n1\<close>), the worker's entry
  of day 99 has been edited (note \<open>n2\<close>), and a second worker has an entry with a note
  of its own (\<open>n3\<close>).
\<close>

definition second_worker :: user where
  "second_worker = \<lparr>u_id = ''w2'', name = ''Jane Roe'', email = None, phone = None,
                     role = ''worker'', pin = ''4321'', is_suspended = False,
                     suspension_notes = []\<rparr>"

definition edited_entry :: time_entry where
  "edited_entry = \<lparr>e_id = ''e1'', userId = ''w1'', loginTime = hm 99 9 0,
                    logoutTime = Some (hm 99 17 0), totalHours = 8, date = 99, edited = True,
                    lastModified = hm 100 8 0, editNotes = [''n2'']\<rparr>"

definition other_entry :: time_entry where
  "other_entry = \<lparr>e_id = ''e3'', userId = ''w2'', loginTime = hm 99 8 0,
                   logoutTime = Some (hm 99 12 0), totalHours = 4, date = 99, edited = True,
                   lastModified = hm 103 12 0, editNotes = [''n3'']\<rparr>"

definition edit_note :: note_rec where
  "edit_note = \<lparr>n_id = ''n2'', entityId = ''e1'', entityType = Time_entry,
                 timestamp = hm 100 8 0, editor = ''System Admin'',
                 note_text = entry_note_text ''Edited by '' ''System Admin'' ''forgot badge''
                               (Some (hm 99 9 30)) (Some (hm 99 17 0)) (15 / 2)
                               (Some (hm 99 9 0)) (Some (hm 99 17 0)) 8\<rparr>"

definition other_note :: note_rec where
  "other_note = \<lparr>n_id = ''n3'', entityId = ''e3'', entityType = Time_entry,
                  timestamp = hm 103 12 0, editor = ''Lead Timekeeper'',
                  note_text = entry_note_text ''Edited by '' ''Lead Timekeeper'' ''left early''
                                (Some (hm 99 8 0)) (Some (hm 99 13 0)) 5
                                (Some (hm 99 8 0)) (Some (hm 99 12 0)) 4\<rparr>"

definition audited_store :: state where
  "audited_store =
     store_of [admin_user, keeper_user,
               worker_user\<lparr>is_suspended := True, suspension_notes := [''n1'']\<rparr>,
               second_worker]
              [edited_entry, other_entry] [suspension_note, edit_note, other_note]"

section \<open>Evaluation and lookup lemmas\<close>

lemmas ex_defs = hm_def admin_user_def keeper_user_def worker_user_def store_of_def
  default_users_def open_entry_def closed_entry_def fresh_store_def clocked_in_store_def
  has_id_def is_active_of_def entry_has_id_def suspension_note_def suspended_store_def
  second_worker_def edited_entry_def other_entry_def edit_note_def other_note_def
  audited_store_def

lemma find_has_id_None: "i \<notin> u_id ` set us \<Longrightarrow> find (has_id i) us = None"
  by (auto simp: find_None_iff has_id_def)

section \<open>Clock-in failures\<close>

text \<open>
  Claim C3, as the code has it. \<open>clock_in\<close> answers 404 when no user has the id, 403 when
  the user found is suspended, and 400 with the message "Already clocked in" (not 409) when
  the user found is not suspended and has an active entry. In each of the three cases the
  store is left as it was, so no time entry is created.
\<close>

theorem clock_in_failures:
  "(uid \<notin> u_id ` set (users s) \<longrightarrow> clock_in s uid nid a b c = ((User_not_found, 404), s))
   \<and> (\<forall>u. find (has_id uid) (users s) = Some u \<and> is_suspended u
          \<longrightarrow> clock_in s uid nid a b c = ((User_suspended, 403), s))
   \<and> (\<forall>u e. find (has_id uid) (users s) = Some u \<and> \<not> is_suspended u
            \<and> find (is_active_of uid) (time_entries s) = Some e
          \<longrightarrow> clock_in s uid nid a b c = ((Already_clocked_in, 400), s))"
  by (simp add: clock_in_def find_has_id_None)

theorem clock_in_failures_witness:
  "(''zz'' \<notin> u_id ` set (users fresh_store)
    \<and> clock_in fresh_store ''zz'' ''e3'' 0 0 0 = ((User_not_found, 404), fresh_store))
   \<and> (find (has_id ''w1'') (users suspended_store)
         = Some (worker_user\<lparr>is_suspended := True, suspension_notes := [''n1'']\<rparr>)
       \<and> is_suspended (worker_user\<lparr>is_suspended := True, suspension_notes := [''n1'']\<rparr>)
       \<and> clock_in suspended_store ''w1'' ''e3'' 0 0 0 = ((User_suspended, 403), suspended_store))
   \<and> (find (has_id ''w1'') (users clocked_in_store) = Some worker_user
       \<and> \<not> is_suspended worker_user
       \<and> find (is_active_of ''w1'') (time_entries clocked_in_store) = Some open_entry
       \<and> clock_in clocked_in_store ''w1'' ''e3'' 0 0 0
           = ((Already_clocked_in, 400), clocked_in_store))"
  using clock_in_failures [of "''zz''" fresh_store "''e3''" 0 0 0]
    clock_in_failures [of "''w1''" suspended_store "''e3''" 0 0 0]
    clock_in_failures [of "''w1''" clocked_in_store "''e3''" 0 0 0]
  by (simp add: ex_defs)

text \<open>
  Claim C3 as stated asks for status 409 when the user is already clocked in. The worker
  of \<open>clocked_in_store\<close> exists, is not suspended and has an active entry; the answer to
  the clock-in is 400.
\<close>

theorem clock_in_conflict_counterexample:
  "find (has_id ''w1'') (users clocked_in_store) = Some worker_user
   \<and> find (is_active_of ''w1'') (time_entries clocked_in_store) = Some open_entry
   \<and> clock_in clocked_in_store ''w1'' ''e3'' (hm 100 10 0) (hm 100 10 0) (hm 100 10 0)
       = ((Already_clocked_in, 400), clocked_in_store)
   \<and> snd (fst (clock_in clocked_in_store ''w1'' ''e3'' (hm 100 10 0) (hm 100 10 0) (hm 100 10 0)))
       \<noteq> 409"
  by (simp add: clock_in_def ex_defs)

section \<open>Rejected edits\<close>

text \<open>
  Claim C6. An edit whose new logout time precedes its new login time never succeeds and
  leaves the whole store as it was: the entry keeps all its fields and no note is appended.
  When the entry exists and the editor is an administrator or a timekeeper the status is
  400, and with an entry id and a reason given the answer is "Logout time cannot be before
  login time".
\<close>

theorem edit_logout_before_login:
  assumes "l < t"
  shows "snd (edit_time_entry s eid (JTime t) (JTime l) reason ed nid n1 n2) = s
    \<and> snd (fst (edit_time_entry s eid (JTime t) (JTime l) reason ed nid n1 n2)) \<noteq> 200
    \<and> (find (entry_has_id eid) (time_entries s) \<noteq> None
        \<and> (\<exists>u. find (has_id ed) (users s) = Some u \<and> role u \<in> {''ADMIN'', ''TIMEKEEPER''})
       \<longrightarrow> snd (fst (edit_time_entry s eid (JTime t) (JTime l) reason ed nid n1 n2)) = 400)
    \<and> (find (entry_has_id eid) (time_entries s) \<noteq> None
        \<and> (\<exists>u. find (has_id ed) (users s) = Some u \<and> role u \<in> {''ADMIN'', ''TIMEKEEPER''})
        \<and> eid \<noteq> [] \<and> reason \<noteq> None \<and> reason \<noteq> Some []
       \<longrightarrow> fst (edit_time_entry s eid (JTime t) (JTime l) reason ed nid n1 n2)
             = (Logout_before_login, 400))"
  using assms by (auto simp: edit_time_entry_def split: option.splits)

theorem edit_logout_before_login_witness:
  "hm 99 9 0 < hm 99 17 0
   \<and> find (entry_has_id ''e1'') (time_entries clocked_in_store) \<noteq> None
   \<and> (\<exists>u. find (has_id ''a1'') (users clocked_in_store) = Some u
           \<and> role u \<in> {''ADMIN'', ''TIMEKEEPER''})
   \<and> edit_time_entry clocked_in_store ''e1'' (JTime (hm 99 17 0)) (JTime (hm 99 9 0))
        (Some ''swap'') ''a1'' ''n1'' (hm 101 8 0) (hm 101 8 0)
      = ((Logout_before_login, 400), clocked_in_store)"
proof -
  have h: "hm 99 9 0 < hm 99 17 0" by (simp add: hm_def)
  have e: "find (entry_has_id ''e1'') (time_entries clocked_in_store) \<noteq> None"
    by (simp add: ex_defs)
  have u: "\<exists>u. find (has_id ''a1'') (users clocked_in_store) = Some u
               \<and> role u \<in> {''ADMIN'', ''TIMEKEEPER''}"
    by (simp add: ex_defs)
  from edit_logout_before_login [OF h, of clocked_in_store "''e1''" "Some ''swap''" "''a1''"
      "''n1''" "hm 101 8 0" "hm 101 8 0"] e u
  have "edit_time_entry clocked_in_store ''e1'' (JTime (hm 99 17 0)) (JTime (hm 99 9 0))
        (Some ''swap'') ''a1'' ''n1'' (hm 101 8 0) (hm 101 8 0)
      = ((Logout_before_login, 400), clocked_in_store)"
    by (simp add: prod_eq_iff)
  with h e u show ?thesis by blast
qed

text \<open>
  Claim C10. An edit without a new login time never succeeds, leaves the whole store as it
  was (entry unchanged, no note), and is never answered with the invalid-date or the
  logout-before-login message. When the request passes the checks made before the times
  are parsed (entry id and reason given, entry found, editor an administrator or a
  timekeeper) the answer is the 500 of the catch-all handler.
\<close>

theorem edit_login_absent:
  "snd (edit_time_entry s eid JNull lo reason ed nid n1 n2) = s
    \<and> snd (fst (edit_time_entry s eid JNull lo reason ed nid n1 n2)) \<noteq> 200
    \<and> fst (edit_time_entry s eid JNull lo reason ed nid n1 n2) \<noteq> (Invalid_date_format, 400)
    \<and> fst (edit_time_entry s eid JNull lo reason ed nid n1 n2) \<noteq> (Logout_before_login, 400)
    \<and> (find (entry_has_id eid) (time_entries s) \<noteq> None
        \<and> (\<exists>u. find (has_id ed) (users s) = Some u \<and> role u \<in> {''ADMIN'', ''TIMEKEEPER''})
        \<and> eid \<noteq> [] \<and> reason \<noteq> None \<and> reason \<noteq> Some []
       \<longrightarrow> fst (edit_time_entry s eid JNull lo reason ed nid n1 n2) = (Error_editing, 500))"
  by (auto simp: edit_time_entry_def split: option.splits)

theorem edit_login_absent_witness:
  "find (entry_has_id ''e1'') (time_entries clocked_in_store) \<noteq> None
   \<and> (\<exists>u. find (has_id ''a1'') (users clocked_in_store) = Some u
           \<and> role u \<in> {''ADMIN'', ''TIMEKEEPER''})
   \<and> edit_time_entry clocked_in_store ''e1'' JNull (JTime (hm 99 18 0))
        (Some ''late'') ''a1'' ''n1'' (hm 101 8 0) (hm 101 8 0)
      = ((Error_editing, 500), clocked_in_store)"
proof -
  have e: "find (entry_has_id ''e1'') (time_entries clocked_in_store) \<noteq> None"
    by (simp add: ex_defs)
  have u: "\<exists>u. find (has_id ''a1'') (users clocked_in_store) = Some u
               \<and> role u \<in> {''ADMIN'', ''TIMEKEEPER''}"
    by (simp add: ex_defs)
  from edit_login_absent [of clocked_in_store "''e1''" "JTime (hm 99 18 0)" "Some ''late''"
      "''a1''" "''n1''" "hm 101 8 0" "hm 101 8 0"] e u
  have "edit_time_entry clocked_in_store ''e1'' JNull (JTime (hm 99 18 0))
        (Some ''late'') ''a1'' ''n1'' (hm 101 8 0) (hm 101 8 0)
      = ((Error_editing, 500), clocked_in_store)"
    by (simp add: prod_eq_iff)
  with e u show ?thesis by blast
qed

section \<open>Rejected suspensions\<close>

text \<open>
  Claim C7. When the requester is unknown or is neither administrator nor timekeeper, the
  target is unknown, the requester is the target, a timekeeper targets an administrator,
  or the note is missing or empty after \<open>strip\<close>, \<open>suspend_user\<close> does not succeed and
  leaves the whole store (users and notes) as it was. A timekeeper suspending an
  administrator is answered 403, "Timekeepers cannot suspend Admin accounts".
\<close>

theorem suspend_user_precondition_failure:
  assumes "find (has_id rid) (users s) = None
           \<or> (\<exists>r. find (has_id rid) (users s) = Some r \<and> role r \<notin> {''ADMIN'', ''TIMEKEEPER''})
           \<or> uid \<notin> u_id ` set (users s)
           \<or> uid = rid
           \<or> (\<exists>r t. find (has_id rid) (users s) = Some r \<and> role r = ''TIMEKEEPER''
                     \<and> find (has_id uid) (users s) = Some t \<and> role t = ''ADMIN'')
           \<or> reason = None
           \<or> (\<exists>t. reason = Some t \<and> strip t = [])"
  shows "snd (suspend_user s uid b reason rid nid n1) = s
    \<and> snd (fst (suspend_user s uid b reason rid nid n1)) \<noteq> 200
    \<and> ((\<exists>r t. find (has_id rid) (users s) = Some r \<and> role r = ''TIMEKEEPER''
                     \<and> find (has_id uid) (users s) = Some t \<and> role t = ''ADMIN'')
        \<longrightarrow> fst (suspend_user s uid b reason rid nid n1)
              = (Timekeeper_cannot_suspend_admin, 403))"
  using assms
  by (auto simp: suspend_user_def find_has_id_None split: option.splits)

theorem suspend_user_precondition_failure_witness:
  "(\<exists>r t. find (has_id ''k1'') (users clocked_in_store) = Some r \<and> role r = ''TIMEKEEPER''
          \<and> find (has_id ''a1'') (users clocked_in_store) = Some t \<and> role t = ''ADMIN'')
   \<and> suspend_user clocked_in_store ''a1'' True (Some ''because'') ''k1'' ''n1'' (hm 100 10 0)
      = ((Timekeeper_cannot_suspend_admin, 403), clocked_in_store)"
proof -
  have h: "\<exists>r t. find (has_id ''k1'') (users clocked_in_store) = Some r
                 \<and> role r = ''TIMEKEEPER''
                 \<and> find (has_id ''a1'') (users clocked_in_store) = Some t \<and> role t = ''ADMIN''"
    by (simp add: ex_defs)
  from suspend_user_precondition_failure [of "''k1''" clocked_in_store "''a1''"
      "Some ''because''" True "''n1''" "hm 100 10 0"] h
  have "suspend_user clocked_in_store ''a1'' True (Some ''because'') ''k1'' ''n1'' (hm 100 10 0)
      = ((Timekeeper_cannot_suspend_admin, 403), clocked_in_store)"
    by (simp add: prod_eq_iff)
  with h show ?thesis by blast
qed

section \<open>Deleting a user\<close>

text \<open>
  Claim C8. A successful \<open>delete_user\<close> keeps, in their order and unchanged, exactly the
  users whose id is not the deleted id, the time entries whose \<open>userId\<close> is not the deleted
  id, and the notes whose id is neither in the \<open>editNotes\<close> of one of the deleted user's
  entries nor in the user's \<open>suspension_notes\<close>; the three files are rewritten with these
  lists.
\<close>

theorem delete_user_cascade:
  assumes "fst (delete_user s uid rid) = (User_deleted, 200)"
  shows "\<exists>u. find (has_id uid) (users s) = Some u
    \<and> users (snd (delete_user s uid rid)) = filter (\<lambda>v. u_id v \<noteq> uid) (users s)
    \<and> time_entries (snd (delete_user s uid rid))
        = filter (\<lambda>e. userId e \<noteq> uid) (time_entries s)
    \<and> note_list (snd (delete_user s uid rid))
        = filter (\<lambda>n. n_id n \<notin> (\<Union> (set ` editNotes ` {e \<in> set (time_entries s). userId e = uid}))
                         \<and> n_id n \<notin> set (suspension_notes u)) (note_list s)
    \<and> users_file (snd (delete_user s uid rid)) = users (snd (delete_user s uid rid))
    \<and> time_entries_file (snd (delete_user s uid rid)) = time_entries (snd (delete_user s uid rid))
    \<and> notes_file (snd (delete_user s uid rid)) = note_list (snd (delete_user s uid rid))"
  using assms
  by (auto simp: delete_user_def Let_def split: option.splits if_splits intro!: filter_cong)

theorem delete_user_cascade_witness:
  "fst (delete_user audited_store ''w1'' ''a1'') = (User_deleted, 200)
   \<and> users (snd (delete_user audited_store ''w1'' ''a1'')) = [admin_user, keeper_user, second_worker]
   \<and> time_entries (snd (delete_user audited_store ''w1'' ''a1'')) = [other_entry]
   \<and> note_list (snd (delete_user audited_store ''w1'' ''a1'')) = [other_note]"
proof -
  let ?w = "worker_user\<lparr>is_suspended := True, suspension_notes := [''n1'']\<rparr>"
  have h: "fst (delete_user audited_store ''w1'' ''a1'') = (User_deleted, 200)"
    by (simp add: delete_user_def ex_defs Let_def)
  have u: "find (has_id ''w1'') (users audited_store) = Some ?w"
    by (simp add: ex_defs)
  have e: "{e \<in> set (time_entries audited_store). userId e = ''w1''} = {edited_entry}"
    by (auto simp add: ex_defs)
  have fu: "filter (\<lambda>v. u_id v \<noteq> ''w1'') (users audited_store)
            = [admin_user, keeper_user, second_worker]"
    by (simp add: ex_defs)
  have fe: "filter (\<lambda>e. userId e \<noteq> ''w1'') (time_entries audited_store) = [other_entry]"
    by (simp add: ex_defs)
  have fn: "filter (\<lambda>n. n_id n \<notin> (\<Union> (set ` editNotes ` {edited_entry}))
                         \<and> n_id n \<notin> set (suspension_notes ?w)) (note_list audited_store)
            = [other_note]"
    by (simp add: ex_defs)
  from delete_user_cascade [OF h] obtain v where
    v: "find (has_id ''w1'') (users audited_store) = Some v"
    and r: "users (snd (delete_user audited_store ''w1'' ''a1''))
              = filter (\<lambda>v. u_id v \<noteq> ''w1'') (users audited_store)"
       "time_entries (snd (delete_user audited_store ''w1'' ''a1''))
              = filter (\<lambda>e. userId e \<noteq> ''w1'') (time_entries audited_store)"
       "note_list (snd (delete_user audited_store ''w1'' ''a1''))
        = filter (\<lambda>n. n_id n \<notin> (\<Union> (set ` editNotes ` {e \<in> set (time_entries audited_store). userId e = ''w1''}))
                         \<and> n_id n \<notin> set (suspension_notes v)) (note_list audited_store)"
    by blast
  from v u have "v = ?w" by simp
  with r e fu fe fn h show ?thesis by simp
qed

section \<open>Audit notes\<close>

lemma update_first_nth:
  "find P xs = Some x \<Longrightarrow> \<exists>i<length xs. xs ! i = x \<and> update_first P f xs = xs[i := f x]"
proof (induction xs)
  case Nil
  then show ?case by simp
next
  case (Cons y ys)
  show ?case
  proof (cases "P y")
    case True
    with Cons.prems have "y = x" by simp
    with True show ?thesis by (intro exI [of _ 0]) simp
  next
    case False
    with Cons.prems have "find P ys = Some x" by simp
    from Cons.IH [OF this] obtain i where "i < length ys" "ys ! i = x"
      "update_first P f ys = ys[i := f x]" by blast
    with False show ?thesis by (intro exI [of _ "Suc i"]) simp
  qed
qed

lemma handle_exn_fails [simp]: "handle_exn a \<noteq> (Time_entry_updated, 200)"
  by (cases a) simp_all




section \<open>Clocking out\<close>

lemma filter_update_first_other:
  "(\<And>x. P x \<Longrightarrow> \<not> Q x) \<Longrightarrow> (\<And>x. P x \<Longrightarrow> \<not> Q (f x))
   \<Longrightarrow> filter Q (update_first P f xs) = filter Q xs"
  by (induction xs) auto

lemma length_filter_update_first_le:
  "(\<And>x. Q (f x) \<Longrightarrow> Q x)
   \<Longrightarrow> length (filter Q (update_first P f xs)) \<le> length (filter Q xs)"
  by (induction xs) auto

lemma length_filter_update_first_closed:
  "find P xs = Some x \<Longrightarrow> \<not> P (f x)
   \<Longrightarrow> Suc (length (filter P (update_first P f xs))) = length (filter P xs)"
  by (induction xs) (auto split: if_splits)

lemma length_filter_remove1_le:
  "length (filter Q (remove1 a ys)) \<le> length (filter Q ys)"
  by (simp add: filter_remove1 length_remove1)

lemma length_filter_remove1_mem:
  "a \<in> set ys \<Longrightarrow> Q a \<Longrightarrow> Suc (length (filter Q (remove1 a ys))) = length (filter Q ys)"
proof -
  assume "a \<in> set ys" "Q a"
  then have "a \<in> set (filter Q ys)" by simp
  then have "length (filter Q ys) > 0" by (cases "filter Q ys") auto
  with \<open>a \<in> set (filter Q ys)\<close> show ?thesis
    by (simp add: filter_remove1 length_remove1)
qed

lemma map_u_id_update_first:
  "(\<And>u. u_id (f u) = u_id u) \<Longrightarrow> map u_id (update_first P f us) = map u_id us"
  by (induction us) auto

lemma find_has_id_map:
  "map u_id us' = map u_id us \<Longrightarrow> (find (has_id i) us' = None) = (find (has_id i) us = None)"
proof -
  assume "map u_id us' = map u_id us"
  then have "u_id ` set us' = u_id ` set us" by (metis set_map)
  then show ?thesis by (auto simp: find_None_iff has_id_def image_iff) (metis imageI image_iff)+
qed

lemma clock_out_users_irrelevant:
  assumes "map u_id (users s') = map u_id (users s)" and "time_entries s' = time_entries s"
  shows "fst (clock_out s' uid n1 n2 n3) = fst (clock_out s uid n1 n2 n3)
     \<and> time_entries (snd (clock_out s' uid n1 n2 n3)) = time_entries (snd (clock_out s uid n1 n2 n3))"
proof (cases "find (has_id uid) (users s)")
  case None
  with find_has_id_map [OF assms(1), of uid] have "find (has_id uid) (users s') = None" by simp
  with None assms(2) show ?thesis by (simp add: clock_out_def)
next
  case (Some u)
  with find_has_id_map [OF assms(1), of uid] obtain u' where "find (has_id uid) (users s') = Some u'"
    by auto
  with Some assms(2) show ?thesis
    by (simp add: clock_out_def Let_def split: option.splits)
qed

lemma clock_out_closes:
  assumes u: "find (has_id uid) (users s) = Some u"
    and e: "find (is_active_of uid) (time_entries s) = Some e"
  shows "snd (fst (clock_out s uid n1 n2 n3)) = 200
     \<and> Suc (length (filter (is_active_of uid) (time_entries (snd (clock_out s uid n1 n2 n3)))))
         = length (filter (is_active_of uid) (time_entries s))"
proof (cases "find (is_today_entry uid (day_of n2) n1) (time_entries s)")
  case None
  let ?f = "\<lambda>x. x\<lparr>logoutTime := Some n1,
                    totalHours := round2 (total_seconds (n1 - loginTime e) / 3600),
                    lastModified := n3\<rparr>"
  have "\<not> is_active_of uid (?f e)" by (simp add: is_active_of_def)
  from length_filter_update_first_closed [where f = ?f, OF e this] u e None show ?thesis
    by (simp add: clock_out_def Let_def)
next
  case (Some x)
  let ?P = "is_today_entry uid (day_of n2) n1"
  let ?g = "\<lambda>x. x\<lparr>totalHours := round2 (totalHours x + round2 (total_seconds (n1 - loginTime e) / 3600)),
                    logoutTime := Some n1, lastModified := n3\<rparr>"
  have eq: "filter (is_active_of uid) (update_first ?P ?g (time_entries s))
          = filter (is_active_of uid) (time_entries s)"
    by (rule filter_update_first_other) (auto simp: is_today_entry_def is_active_of_def)
  from e have "e \<in> set (filter (is_active_of uid) (time_entries s))"
    by (auto simp: find_Some_iff in_set_conv_nth)
  with eq have "e \<in> set (filter (is_active_of uid) (update_first ?P ?g (time_entries s)))"
    by simp
  then have "e \<in> set (update_first ?P ?g (time_entries s))" "is_active_of uid e"
    by simp_all
  from length_filter_remove1_mem [where Q = "is_active_of uid", OF this] eq u e Some
  show ?thesis
    by (simp add: clock_out_def Let_def)
qed


lemma clock_out_in_place:
  assumes u: "find (has_id uid) (users s) = Some u"
    and e: "find (is_active_of uid) (time_entries s) = Some e"
    and n: "find (is_today_entry uid (day_of n2) n1) (time_entries s) = None"
  shows "\<exists>i<length (time_entries s). time_entries s ! i = e
     \<and> clock_out s uid n1 n2 n3 =
         ((Clocked_out, 200),
          s\<lparr>time_entries := (time_entries s)
                [i := e\<lparr>logoutTime := Some n1,
                         totalHours := round2 (total_seconds (n1 - loginTime e) / 3600),
                         lastModified := n3\<rparr>],
            time_entries_file := (time_entries s)
                [i := e\<lparr>logoutTime := Some n1,
                         totalHours := round2 (total_seconds (n1 - loginTime e) / 3600),
                         lastModified := n3\<rparr>]\<rparr>)"
proof -
  let ?f = "\<lambda>x. x\<lparr>logoutTime := Some n1,
                    totalHours := round2 (total_seconds (n1 - loginTime e) / 3600),
                    lastModified := n3\<rparr>"
  from update_first_nth [OF e, of ?f] obtain i where
    "i < length (time_entries s)" "time_entries s ! i = e"
    "update_first (is_active_of uid) ?f (time_entries s) = (time_entries s)[i := ?f e]"
    by blast
  with u e n show ?thesis
    by (intro exI [of _ i]) (simp add: clock_out_def Let_def)
qed

text \<open>
  Claim C9. A suspended user's clock-in is answered 403 and changes nothing. A successful
  \<open>suspend_user\<close> leaves the list of time entries as it was, and a clock-out after it
  gives the same answer and the same time entries as a clock-out without it. \<open>clock_out\<close>
  never reads \<open>is_suspended\<close>: for every user found, suspended or not, who has an active
  entry, the clock-out is answered 200 and leaves one active entry of that user fewer;
  when no closed entry of the same day exists the active entry is closed in place, with
  the logout time, the rounded hours and the modification time set.
\<close>

theorem suspension_keeps_session:
  "(\<forall>u. find (has_id uid) (users s) = Some u \<and> is_suspended u
        \<longrightarrow> clock_in s uid nid a b c = ((User_suspended, 403), s))
   \<and> (fst (suspend_user s uid susp reason rid snid t) = (Suspension_updated, 200)
        \<longrightarrow> time_entries (snd (suspend_user s uid susp reason rid snid t)) = time_entries s
          \<and> fst (clock_out (snd (suspend_user s uid susp reason rid snid t)) uid n1 n2 n3)
              = fst (clock_out s uid n1 n2 n3)
          \<and> time_entries (snd (clock_out (snd (suspend_user s uid susp reason rid snid t))
                                  uid n1 n2 n3))
              = time_entries (snd (clock_out s uid n1 n2 n3)))
   \<and> (\<forall>u e. find (has_id uid) (users s) = Some u
          \<and> find (is_active_of uid) (time_entries s) = Some e
        \<longrightarrow> snd (fst (clock_out s uid n1 n2 n3)) = 200
          \<and> Suc (length (filter (is_active_of uid)
                           (time_entries (snd (clock_out s uid n1 n2 n3)))))
              = length (filter (is_active_of uid) (time_entries s))
          \<and> (find (is_today_entry uid (day_of n2) n1) (time_entries s) = None
              \<longrightarrow> (\<exists>i<length (time_entries s). time_entries s ! i = e
                    \<and> time_entries (snd (clock_out s uid n1 n2 n3))
                        = (time_entries s)
                            [i := e\<lparr>logoutTime := Some n1,
                                     totalHours := round2 (total_seconds (n1 - loginTime e) / 3600),
                                     lastModified := n3\<rparr>])))"
proof (intro conjI allI impI)
  fix u assume "find (has_id uid) (users s) = Some u \<and> is_suspended u"
  then show "clock_in s uid nid a b c = ((User_suspended, 403), s)"
    by (simp add: clock_in_def)
next
  assume ok: "fst (suspend_user s uid susp reason rid snid t) = (Suspension_updated, 200)"
  let ?s = "snd (suspend_user s uid susp reason rid snid t)"
  from ok show es: "time_entries ?s = time_entries s"
    by (auto simp: suspend_user_def Let_def split: option.splits if_splits)
  from ok have us: "map u_id (users ?s) = map u_id (users s)"
    by (auto simp: suspend_user_def Let_def map_u_id_update_first split: option.splits if_splits)
  from clock_out_users_irrelevant [OF us es]
  show "fst (clock_out ?s uid n1 n2 n3) = fst (clock_out s uid n1 n2 n3)"
    and "time_entries (snd (clock_out ?s uid n1 n2 n3)) = time_entries (snd (clock_out s uid n1 n2 n3))"
    by simp_all
next
  fix u e assume h: "find (has_id uid) (users s) = Some u
          \<and> find (is_active_of uid) (time_entries s) = Some e"
  from clock_out_closes [of uid s u e n1 n2 n3] h
  show "snd (fst (clock_out s uid n1 n2 n3)) = 200"
    and "Suc (length (filter (is_active_of uid) (time_entries (snd (clock_out s uid n1 n2 n3)))))
              = length (filter (is_active_of uid) (time_entries s))"
    by simp_all
  assume n: "find (is_today_entry uid (day_of n2) n1) (time_entries s) = None"
  from clock_out_in_place [of uid s u e n2 n1 n3] h n
  show "\<exists>i<length (time_entries s). time_entries s ! i = e
                    \<and> time_entries (snd (clock_out s uid n1 n2 n3))
                        = (time_entries s)
                            [i := e\<lparr>logoutTime := Some n1,
                                     totalHours := round2 (total_seconds (n1 - loginTime e) / 3600),
                                     lastModified := n3\<rparr>]"
    by auto
qed


theorem suspension_keeps_session_witness:
  "(find (has_id ''w1'') (users suspended_store)
      = Some (worker_user\<lparr>is_suspended := True, suspension_notes := [''n1'']\<rparr>)
    \<and> is_suspended (worker_user\<lparr>is_suspended := True, suspension_notes := [''n1'']\<rparr>)
    \<and> clock_in suspended_store ''w1'' ''e9'' (hm 100 11 0) (hm 100 11 0) (hm 100 11 0)
        = ((User_suspended, 403), suspended_store))
   \<and> (fst (suspend_user clocked_in_store ''w1'' True (Some ''no show'') ''a1'' ''n1'' (hm 100 10 0))
        = (Suspension_updated, 200)
      \<and> time_entries (snd (suspend_user clocked_in_store ''w1'' True (Some ''no show'') ''a1''
                              ''n1'' (hm 100 10 0)))
          = [closed_entry, open_entry]
      \<and> fst (clock_out (snd (suspend_user clocked_in_store ''w1'' True (Some ''no show'') ''a1''
                                ''n1'' (hm 100 10 0)))
                ''w1'' (hm 100 17 0) (hm 100 17 0) (hm 100 17 0))
          = (Clocked_out, 200))
   \<and> (find (is_active_of ''w1'') (time_entries suspended_store) = Some open_entry
      \<and> find (is_today_entry ''w1'' (day_of (hm 100 17 0)) (hm 100 17 0))
            (time_entries suspended_store) = None
      \<and> snd (fst (clock_out suspended_store ''w1'' (hm 100 17 0) (hm 100 17 0) (hm 100 17 0))) = 200
      \<and> length (filter (is_active_of ''w1'')
           (time_entries (snd (clock_out suspended_store ''w1'' (hm 100 17 0) (hm 100 17 0)
                                 (hm 100 17 0))))) = 0)"
proof -
  let ?w = "worker_user\<lparr>is_suspended := True, suspension_notes := [''n1'']\<rparr>"
  let ?T = "hm 100 17 0"
  have u: "find (has_id ''w1'') (users suspended_store) = Some ?w" by (simp add: ex_defs)
  have su: "is_suspended ?w" by simp
  have ok: "fst (suspend_user clocked_in_store ''w1'' True (Some ''no show'') ''a1'' ''n1''
                  (hm 100 10 0)) = (Suspension_updated, 200)"
    by (simp add: suspend_user_def strip_def is_space_def ex_defs Let_def)
  have es: "time_entries clocked_in_store = [closed_entry, open_entry]"
    by (simp add: clocked_in_store_def store_of_def)
  have co: "fst (clock_out clocked_in_store ''w1'' ?T ?T ?T) = (Clocked_out, 200)"
    by (simp add: clock_out_def ex_defs is_today_entry_def day_of_def Let_def)
  have e: "find (is_active_of ''w1'') (time_entries suspended_store) = Some open_entry"
    by (simp add: ex_defs)
  have n: "find (is_today_entry ''w1'' (day_of ?T) ?T) (time_entries suspended_store) = None"
    by (simp add: ex_defs is_today_entry_def day_of_def)
  have c: "length (filter (is_active_of ''w1'') (time_entries suspended_store)) = 1"
    by (simp add: ex_defs)
  note a = suspension_keeps_session [where s = suspended_store and uid = "''w1''"
      and nid = "''e9''" and a = "hm 100 11 0" and b = "hm 100 11 0" and c = "hm 100 11 0"
      and ?n1.0 = ?T and ?n2.0 = ?T and ?n3.0 = ?T]
  note b = suspension_keeps_session [where s = clocked_in_store and uid = "''w1''"
      and susp = True and reason = "Some ''no show''" and rid = "''a1''" and snid = "''n1''"
      and t = "hm 100 10 0" and ?n1.0 = ?T and ?n2.0 = ?T and ?n3.0 = ?T]
  from a u su have p1: "clock_in suspended_store ''w1'' ''e9'' (hm 100 11 0) (hm 100 11 0)
      (hm 100 11 0) = ((User_suspended, 403), suspended_store)"
    by blast
  from b ok es co have p2: "time_entries (snd (suspend_user clocked_in_store ''w1'' True
        (Some ''no show'') ''a1'' ''n1'' (hm 100 10 0))) = [closed_entry, open_entry]
      \<and> fst (clock_out (snd (suspend_user clocked_in_store ''w1'' True (Some ''no show'') ''a1''
                                ''n1'' (hm 100 10 0))) ''w1'' ?T ?T ?T) = (Clocked_out, 200)"
    by simp
  from a u e c have p3: "snd (fst (clock_out suspended_store ''w1'' ?T ?T ?T)) = 200
      \<and> length (filter (is_active_of ''w1'')
           (time_entries (snd (clock_out suspended_store ''w1'' ?T ?T ?T)))) = 0"
    by auto
  from u su ok e n p1 p2 p3 show ?thesis by blast
qed

section \<open>Two sessions on one day\<close>










section \<open>At most one active entry per user\<close>

text \<open>
  The invariant says that every user has at most one active entry. It is kept by
  \<open>clock_in\<close>, \<open>clock_out\<close>, \<open>logout\<close>, \<open>delete_user\<close>, \<open>suspend_user\<close>,
  \<open>get_all_time_entries\<close>, and by \<open>edit_time_entry\<close> when a logout time is given.
\<close>

lemma at_most_one_active_iff:
  "at_most_one_active es \<longleftrightarrow> (\<forall>uid. length (filter (is_active_of uid) es) \<le> 1)"
proof (induction es)
  case Nil
  then show ?case by (simp add: at_most_one_active_def)
next
  case (Cons e es)
  have mem: "\<And>u. u \<in> userId ` {x \<in> set es. logoutTime x = None}
                 \<longleftrightarrow> filter (is_active_of u) es \<noteq> []"
    by (auto simp: filter_empty_conv is_active_of_def)
  show ?case
  proof (cases "logoutTime e")
    case (Some l)
    with Cons show ?thesis by (simp add: at_most_one_active_def is_active_of_def)
  next
    case None
    show ?thesis
    proof
      assume a: "at_most_one_active (e # es)"
      with None have d: "at_most_one_active es" and n: "filter (is_active_of (userId e)) es = []"
        using mem [of "userId e"] by (auto simp: at_most_one_active_def)
      show "\<forall>uid. length (filter (is_active_of uid) (e # es)) \<le> 1"
      proof
        fix uid
        from d Cons.IH have "length (filter (is_active_of uid) es) \<le> 1" by simp
        with n show "length (filter (is_active_of uid) (e # es)) \<le> 1"
          by (cases "uid = userId e") (auto simp: is_active_of_def)
      qed
    next
      assume a: "\<forall>uid. length (filter (is_active_of uid) (e # es)) \<le> 1"
      have "\<forall>uid. length (filter (is_active_of uid) es) \<le> 1"
      proof
        fix uid
        have "length (filter (is_active_of uid) es) \<le> length (filter (is_active_of uid) (e # es))"
          by simp
        also from a have "\<dots> \<le> 1" by blast
        finally show "length (filter (is_active_of uid) es) \<le> 1" .
      qed
      with Cons.IH have d: "at_most_one_active es" by simp
      from a None have "length (filter (is_active_of (userId e)) (e # es)) \<le> 1" by blast
      with None have "filter (is_active_of (userId e)) es = []"
        by (simp add: is_active_of_def)
      with mem [of "userId e"] d None show "at_most_one_active (e # es)"
        by (auto simp: at_most_one_active_def)
    qed
  qed
qed


lemma active_le_preserves:
  assumes "\<And>v. length (filter (is_active_of v) es') \<le> length (filter (is_active_of v) es)"
    and "at_most_one_active es"
  shows "at_most_one_active es'"
  using assms unfolding at_most_one_active_iff by (meson order_trans)

lemma closing_update_le:
  assumes "\<And>x. logoutTime (f x) \<noteq> None"
  shows "length (filter (is_active_of v) (update_first P f xs))
         \<le> length (filter (is_active_of v) xs)"
  by (rule length_filter_update_first_le) (use assms in \<open>auto simp: is_active_of_def\<close>)

lemma length_filter_conj_le:
  "length (filter (\<lambda>x. R x \<and> Q x) xs) \<le> length (filter Q xs)"
  by (induction xs) auto

lemma clock_in_preserves_invariant:
  assumes "at_most_one_active (time_entries s)"
  shows "at_most_one_active (time_entries (snd (clock_in s uid nid a b c)))"
proof (cases "fst (clock_in s uid nid a b c) = (Clocked_in, 200)")
  case False
  then have "snd (clock_in s uid nid a b c) = s"
    by (auto simp: clock_in_def Let_def split: option.splits if_splits)
  with assms show ?thesis by simp
next
  case True
  then have n: "find (is_active_of uid) (time_entries s) = None"
    by (auto simp: clock_in_def Let_def split: option.splits if_splits)
  then have e: "filter (is_active_of uid) (time_entries s) = []"
    by (simp add: find_None_iff filter_empty_conv)
  from True n have es: "time_entries (snd (clock_in s uid nid a b c)) = time_entries s @
      [\<lparr>e_id = nid, userId = uid, loginTime = a, logoutTime = None, totalHours = 0,
        date = day_of b, edited = False, lastModified = c, editNotes = []\<rparr>]"
    by (auto simp: clock_in_def Let_def split: option.splits if_splits)
  show ?thesis unfolding at_most_one_active_iff es
  proof
    fix v
    from assms have "length (filter (is_active_of v) (time_entries s)) \<le> 1"
      by (simp add: at_most_one_active_iff)
    with e show "length (filter (is_active_of v) (time_entries s @
      [\<lparr>e_id = nid, userId = uid, loginTime = a, logoutTime = None, totalHours = 0,
        date = day_of b, edited = False, lastModified = c, editNotes = []\<rparr>])) \<le> 1"
      by (cases "v = uid") (simp_all add: is_active_of_def)
  qed
qed

lemma clock_out_active_le:
  "length (filter (is_active_of v) (time_entries (snd (clock_out s uid n1 n2 n3))))
   \<le> length (filter (is_active_of v) (time_entries s))"
  by (auto simp: clock_out_def Let_def split: option.splits
      intro!: closing_update_le order_trans [OF length_filter_remove1_le])

lemma logout_active_le:
  "length (filter (is_active_of v) (time_entries (snd (logout s uid reason rid nid n1 n2 n3))))
   \<le> length (filter (is_active_of v) (time_entries s))"
  by (auto simp: logout_def Let_def split: option.splits intro!: closing_update_le)

lemma delete_user_active_le:
  "length (filter (is_active_of v) (time_entries (snd (delete_user s uid rid))))
   \<le> length (filter (is_active_of v) (time_entries s))"
  by (auto simp: delete_user_def Let_def length_filter_conj_le split: option.splits)

lemma edit_with_logout_active_le:
  "length (filter (is_active_of v)
     (time_entries (snd (edit_time_entry s eid li (JTime l) reason ed nid n1 n2))))
   \<le> length (filter (is_active_of v) (time_entries s))"
  by (auto simp: edit_time_entry_def Let_def split: option.splits sum.splits
      intro!: closing_update_le)

lemma suspend_user_entries: "time_entries (snd (suspend_user s uid b reason rid nid n1)) = time_entries s"
  by (auto simp: suspend_user_def Let_def split: option.splits)

lemma invariant_preserved:
  assumes "at_most_one_active (time_entries s)"
  shows "at_most_one_active (time_entries (snd (clock_in s uid nid a b c)))"
    and "at_most_one_active (time_entries (snd (clock_out s uid n1 n2 n3)))"
    and "at_most_one_active (time_entries (snd (logout s uid reason rid nid n1 n2 n3)))"
    and "at_most_one_active (time_entries (snd (delete_user s uid rid)))"
    and "at_most_one_active (time_entries (snd (suspend_user s uid susp sreason rid nid n1)))"
    and "at_most_one_active (time_entries (snd (get_all_time_entries s n1)))"
    and "at_most_one_active
           (time_entries (snd (edit_time_entry s eid li (JTime l) ereason rid nid n1 n2)))"
  using assms clock_in_preserves_invariant
    active_le_preserves [OF clock_out_active_le]
    active_le_preserves [OF logout_active_le]
    active_le_preserves [OF delete_user_active_le]
    active_le_preserves [OF edit_with_logout_active_le]
  by (simp_all add: suspend_user_entries get_all_time_entries_def Let_def)

text \<open>
  Claim C1, evaluated where it fails. In \<open>clocked_in_store\<close> the worker has the closed entry
  \<open>e1\<close> and the active entry \<open>e2\<close>, and the invariant holds. The administrator edits \<open>e1\<close>
  without a logout time: \<open>edit_time_entry\<close> makes no check for another active entry, the
  call is answered 200, and afterwards the worker has two active entries.
\<close>

theorem edit_reopens_second_active_entry:
  "at_most_one_active (time_entries clocked_in_store)
   \<and> fst (edit_time_entry clocked_in_store ''e1'' (JTime (hm 99 9 0)) JNull (Some ''reopen'')
            ''a1'' ''n9'' (hm 100 12 0) (hm 100 12 0)) = (Time_entry_updated, 200)
   \<and> filter (is_active_of ''w1'')
        (time_entries (snd (edit_time_entry clocked_in_store ''e1'' (JTime (hm 99 9 0)) JNull
            (Some ''reopen'') ''a1'' ''n9'' (hm 100 12 0) (hm 100 12 0))))
      = [closed_entry\<lparr>logoutTime := None, totalHours := 0, edited := True,
                       lastModified := hm 100 12 0, editNotes := [''n9'']\<rparr>,
         open_entry]
   \<and> \<not> at_most_one_active
        (time_entries (snd (edit_time_entry clocked_in_store ''e1'' (JTime (hm 99 9 0)) JNull
            (Some ''reopen'') ''a1'' ''n9'' (hm 100 12 0) (hm 100 12 0))))"
  by (simp add: edit_time_entry_def at_most_one_active_def ex_defs Let_def)

section \<open>The listing and the edited flag\<close>

lemma get_all_time_entries_store:
  "time_entries (snd (get_all_time_entries s t)) = time_entries s
   \<and> users (snd (get_all_time_entries s t)) = users s
   \<and> note_list (snd (get_all_time_entries s t)) = note_list s
   \<and> (time_entries_file (snd (get_all_time_entries s t)) = time_entries s
      \<or> time_entries_file (snd (get_all_time_entries s t)) = time_entries_file s)"
  by (simp add: get_all_time_entries_def Let_def)

text \<open>
  Claim C2, evaluated where it fails. In \<open>audited_store\<close> the entry \<open>e1\<close> is flagged as
  edited and was last modified more than three days before 9:00 of day 104; the entry
  \<open>e3\<close> was modified less than three days before. The listing read at that time shows
  \<open>e1\<close> with the flag reset and \<open>e3\<close> with the flag set, but the reset is made in the
  copy only: the list \<open>time_entries\<close> and the file written from it still hold \<open>e1\<close> with
  \<open>edited\<close> set, and the store after the read equals the store before it.
\<close>

theorem listing_leaves_stored_flag:
  "is_stale (hm 104 9 0) edited_entry \<and> \<not> is_stale (hm 104 9 0) other_entry
   \<and> map entry (fst (get_all_time_entries audited_store (hm 104 9 0)))
       = [edited_entry\<lparr>edited := False\<rparr>, other_entry]
   \<and> snd (get_all_time_entries audited_store (hm 104 9 0)) = audited_store
   \<and> time_entries (snd (get_all_time_entries audited_store (hm 104 9 0)))
       = [edited_entry, other_entry]
   \<and> time_entries_file (snd (get_all_time_entries audited_store (hm 104 9 0)))
       = [edited_entry, other_entry]
   \<and> edited edited_entry"
  by (simp add: get_all_time_entries_def view_of_def is_stale_def timedelta_days_def
      ex_defs Let_def)

end
